theory Spec2Isabelle
  imports Complex_Main "HOL-Library.AList" "HOL-Library.Sublist"
begin

section \<open>Values of request bodies\<close>

text \<open>
  Request bodies reach the controllers as parsed JSON. A value is modelled by the
  datatype below; an object is the list of its own properties in enumeration order, an
  array the list of its elements. \<open>JUndefined\<close> is the result of reading a property that
  is not there.
\<close>

datatype jsval =
    JUndefined
  | JNull
  | JBool bool
  | JNum real
  | JStr string
  | JArr "jsval list"
  | JObj "(string \<times> jsval) list"

type_synonym props = "(string \<times> jsval) list"

text \<open>The condition \<open>if (v)\<close>: everything is true but undefined, null, false, 0 and the
  empty string.\<close>

fun truthy :: "jsval \<Rightarrow> bool" where
  "truthy JUndefined = False"
| "truthy JNull = False"
| "truthy (JBool b) = b"
| "truthy (JNum n) = (n \<noteq> 0)"
| "truthy (JStr s) = (s \<noteq> [])"
| "truthy (JArr xs) = True"
| "truthy (JObj ps) = True"

text \<open>\<open>v.name\<close> for a value that is neither undefined nor null, and a name that no built-in
  prototype defines (the field names of an order): only an object has such a property.\<close>

fun get_prop :: "jsval \<Rightarrow> string \<Rightarrow> jsval" where
  "get_prop (JObj ps) name = (case map_of ps name of None \<Rightarrow> JUndefined | Some v \<Rightarrow> v)"
| "get_prop v name = JUndefined"

text \<open>\<open>v?.name\<close>: undefined when \<open>v\<close> is undefined or null.\<close>

definition opt_get :: "jsval \<Rightarrow> string \<Rightarrow> jsval" where
  "opt_get v name = (if v = JUndefined \<or> v = JNull then JUndefined else get_prop v name)"

text \<open>The names every object literal inherits from \<open>Object.prototype\<close>. Reading one of
  them from an object that has no own property of that name yields a built-in function
  (for \<open>__proto__\<close> the prototype object), which is true as a condition.\<close>

definition OBJECT_PROTOTYPE_KEYS :: "string list" where
  "OBJECT_PROTOTYPE_KEYS =
     [''constructor'', ''__proto__'', ''hasOwnProperty'', ''isPrototypeOf'',
      ''propertyIsEnumerable'', ''toLocaleString'', ''toString'', ''valueOf'',
      ''__defineGetter__'', ''__defineSetter__'', ''__lookupGetter__'', ''__lookupSetter__'']"

text \<open>What a handler can end with instead of a result: an uncaught \<open>TypeError\<close>, or the
  \<open>AppError\<close> (message, HTTP status) it hands to \<open>next\<close>, or a document the schema rejects.\<close>

datatype error = TypeError | ValidationError | AppError string nat

section \<open>Orders, uploads\<close>

text \<open>\<open>country\<close> and \<open>city\<close> are documented as strings; \<open>None\<close> is a field that is not
  there. The card design and the personal information are only ever tested as
  conditions, field by field, so they stay raw values. \<open>orderTotal\<close> is the field \<open>total\<close>
  and \<open>orderNotes\<close> the field \<open>notes\<close> of an order.\<close>

record deliveryInfo =
  country :: "string option"
  city :: "string option"

record order =
  personalInfo :: jsval
  cardDesign :: jsval
  deliveryInfo :: "deliveryInfo option"
  product :: "string option"
  productPrice :: jsval
  orderTotal :: jsval
  logoSurcharge :: jsval
  status :: "string option"
  orderNotes :: "string option"

text \<open>An uploaded file as multer describes it, and \<open>req.files\<close>: field name to files.\<close>

record upload =
  fieldname :: string
  path :: string
  filename :: string

type_synonym files = "(string \<times> upload list) list"

section \<open>utils/orderValidation.js: the validators\<close>

definition COUNTRY_CITY_MAP :: "(string \<times> string list) list" where
  "COUNTRY_CITY_MAP =
     [(''JO'', [''Amman'', ''Irbid'', ''Zarqa'', ''Aqaba'', ''Salt'']),
      (''UK'', [''London'', ''Manchester'', ''Birmingham'', ''Liverpool'', ''Bristol''])]"

text \<open>\<open>xs.join(sep)\<close> on a list of strings.\<close>

fun join :: "string \<Rightarrow> string list \<Rightarrow> string" where
  "join sep [] = []"
| "join sep [x] = x"
| "join sep (x # y # ys) = x @ sep @ join sep (y # ys)"

text \<open>A string argument as a condition: absent and empty are false.\<close>

fun present :: "string option \<Rightarrow> bool" where
  "present None = False"
| "present (Some s) = (s \<noteq> [])"

definition LOGO_REQUIRED :: string where
  "LOGO_REQUIRED = ''Company logo is required when printed logo is selected''"

text \<open>\<open>validateCompanyLogo(cardDesign, files = {}, existingOrder = null)\<close>. The result is
  the message, or \<open>None\<close> for null.\<close>

definition validateCompanyLogo :: "jsval \<Rightarrow> files option \<Rightarrow> order option \<Rightarrow> string option" where
  "validateCompanyLogo cardDesign' files' existingOrder =
     (let files = (case files' of None \<Rightarrow> [] | Some fs \<Rightarrow> fs) in
      if \<not> truthy cardDesign' \<or> \<not> truthy (get_prop cardDesign' ''includePrintedLogo'')
      then None
      else
        let hasUploadedLogo =
              (truthy (get_prop cardDesign' ''companyLogo'') \<or>
               (case map_of files ''companyLogo'' of
                  None \<Rightarrow> False
                | Some uploaded \<Rightarrow> length uploaded > 0));
            hasExistingLogo =
              (case existingOrder of
                 None \<Rightarrow> False
               | Some existing \<Rightarrow> truthy (opt_get (cardDesign existing) ''companyLogo''))
        in if \<not> hasUploadedLogo \<and> \<not> hasExistingLogo then Some LOGO_REQUIRED else None)"

text \<open>\<open>validateCountryCity(country, city)\<close>. \<open>COUNTRY_CITY_MAP[country]\<close> looks the name up
  in an object literal: for \<open>JO\<close> and \<open>UK\<close> it is the city list, for a name of
  \<open>OBJECT_PROTOTYPE_KEYS\<close> it is an inherited built-in, which passes \<open>!validCities\<close> and
  has no \<open>includes\<close> method, so the call throws; for every other name it is undefined.\<close>

definition validateCountryCity :: "string option \<Rightarrow> string option \<Rightarrow> error + string option" where
  "validateCountryCity country' city' =
     (if \<not> present country' \<or> \<not> present city' then Inr None
      else
        (case (country', city') of
           (Some c, Some t) \<Rightarrow>
             (case map_of COUNTRY_CITY_MAP c of
                None \<Rightarrow>
                  if c \<in> set OBJECT_PROTOTYPE_KEYS then Inl TypeError
                  else
                    Inr (Some (''Invalid country '' @ [CHR 0x27] @ c @ [CHR 0x27] @
                               ''. Available countries are: '' @
                               join '', '' (map fst COUNTRY_CITY_MAP)))
              | Some validCities \<Rightarrow>
                  if t \<notin> set validCities
                  then Inr (Some (''Invalid city '' @ [CHR 0x27] @ t @ [CHR 0x27] @
                                  '' for country '' @ [CHR 0x27] @ c @ [CHR 0x27] @
                                  ''. Valid cities are: '' @ join '', '' validCities))
                  else Inr None)
         | _ \<Rightarrow> Inr None))"

text \<open>\<open>a || b\<close> on two string arguments.\<close>

definition or_else :: "string option \<Rightarrow> string option \<Rightarrow> string option" where
  "or_else a b = (if present a then a else b)"

text \<open>\<open>validateDeliveryInfo(deliveryInfo, existingOrder = null)\<close>.\<close>

definition validateDeliveryInfo :: "deliveryInfo option \<Rightarrow> order option \<Rightarrow> error + string option" where
  "validateDeliveryInfo deliveryInfo' existingOrder =
     (case deliveryInfo' of
        None \<Rightarrow> Inr None
      | Some d \<Rightarrow>
          let existing = (case existingOrder of None \<Rightarrow> None | Some e \<Rightarrow> deliveryInfo e);
              country' = or_else (country d) (case existing of None \<Rightarrow> None | Some e \<Rightarrow> country e);
              city' = or_else (city d) (case existing of None \<Rightarrow> None | Some e \<Rightarrow> city e)
          in validateCountryCity country' city')"

text \<open>\<open>validateRequiredFields(orderData)\<close>: the first missing group, in the order of the
  checks.\<close>

definition validateRequiredFields :: "order \<Rightarrow> string option" where
  "validateRequiredFields orderData =
     (if \<not> truthy (personalInfo orderData) then Some ''Personal information is required''
      else if \<not> truthy (cardDesign orderData) then Some ''Card design information is required''
      else if deliveryInfo orderData = None then Some ''Delivery information is required''
      else if \<not> present (product orderData) then Some ''Product ID is required''
      else None)"

section \<open>Strings\<close>

text \<open>A string is the sequence of its bytes. The methods below are the ones the sources
  call; every pattern they are called with is ASCII.\<close>

definition startsWith :: "string \<Rightarrow> string \<Rightarrow> bool" where
  "startsWith s pat = (take (length pat) s = pat)"

text \<open>\<open>s.indexOf(pat)\<close>: the first position where \<open>pat\<close> starts, \<open>None\<close> for -1.\<close>

fun indexOf :: "string \<Rightarrow> string \<Rightarrow> nat option" where
  "indexOf [] pat = (if pat = [] then Some 0 else None)"
| "indexOf (c # cs) pat =
     (if startsWith (c # cs) pat then Some 0 else map_option Suc (indexOf cs pat))"

definition str_includes :: "string \<Rightarrow> string \<Rightarrow> bool" where
  "str_includes s pat = (indexOf s pat \<noteq> None)"

text \<open>\<open>s.replace(pat, rep)\<close> with a string pattern: the first occurrence only.\<close>

definition str_replace :: "string \<Rightarrow> string \<Rightarrow> string \<Rightarrow> string" where
  "str_replace s pat rep =
     (case indexOf s pat of
        None \<Rightarrow> s
      | Some i \<Rightarrow> take i s @ rep @ drop (i + length pat) s)"

text \<open>\<open>s.split(c)\<close> for a separator of one character.\<close>

fun str_split :: "string \<Rightarrow> char \<Rightarrow> string list" where
  "str_split [] sep = [[]]"
| "str_split (c # cs) sep =
     (if c = sep then [] # str_split cs sep
      else (case str_split cs sep of
              [] \<Rightarrow> [[c]]
            | piece # pieces \<Rightarrow> (c # piece) # pieces))"

text \<open>\<open>xs[i]\<close> on the result of a split: \<open>None\<close> is undefined.\<close>

fun at_index :: "'a list \<Rightarrow> nat \<Rightarrow> 'a option" where
  "at_index [] i = None"
| "at_index (x # xs) 0 = Some x"
| "at_index (x # xs) (Suc i) = at_index xs i"

definition lower_char :: "char \<Rightarrow> char" where
  "lower_char c =
     (let n = (of_char c :: nat) in if 65 \<le> n \<and> n \<le> 90 then char_of (n + 32) else c)"

text \<open>\<open>s.toLowerCase()\<close>. Its result is only compared with ASCII words, so what matters is
  which characters become ASCII letters: the capital letters, and the Kelvin sign (bytes
  E2 84 AA), which becomes \<open>k\<close>.\<close>

fun toLowerCase :: "string \<Rightarrow> string" where
  "toLowerCase (a # b # c # cs) =
     (if a = CHR 0xE2 \<and> b = CHR 0x84 \<and> c = CHR 0xAA then CHR ''k'' # toLowerCase cs
      else lower_char a # toLowerCase (b # c # cs))"
| "toLowerCase (a # cs) = lower_char a # toLowerCase cs"
| "toLowerCase [] = []"

text \<open>The value of a digit in the given radix.\<close>

definition digit_value :: "nat \<Rightarrow> char \<Rightarrow> nat option" where
  "digit_value radix c =
     (let n = (of_char c :: nat);
          d = (if 48 \<le> n \<and> n \<le> 57 then Some (n - 48)
               else if 97 \<le> n \<and> n \<le> 122 then Some (n - 87)
               else if 65 \<le> n \<and> n \<le> 90 then Some (n - 55)
               else None)
      in case d of None \<Rightarrow> None | Some v \<Rightarrow> if v < radix then Some v else None)"

text \<open>The white space that \<open>parseInt\<close> skips, by the bytes of each character: the ASCII
  ones (tab, line feed, vertical tab, form feed, carriage return, space), U+00A0, U+1680,
  U+2000 to U+200A, U+2028, U+2029, U+202F, U+205F, U+3000 and U+FEFF.\<close>

definition is_space :: "char \<Rightarrow> bool" where
  "is_space c = ((of_char c :: nat) \<in> {9, 10, 11, 12, 13, 32})"

definition is_space2 :: "char \<Rightarrow> char \<Rightarrow> bool" where
  "is_space2 a b = ((of_char a :: nat) = 0xC2 \<and> (of_char b :: nat) = 0xA0)"

definition is_space3 :: "char \<Rightarrow> char \<Rightarrow> char \<Rightarrow> bool" where
  "is_space3 a b c =
     (let x = (of_char a :: nat); y = (of_char b :: nat); z = (of_char c :: nat) in
      (x = 0xE1 \<and> y = 0x9A \<and> z = 0x80) \<or>
      (x = 0xE2 \<and> y = 0x80 \<and> (0x80 \<le> z \<and> z \<le> 0x8A \<or> z = 0xA8 \<or> z = 0xA9 \<or> z = 0xAF)) \<or>
      (x = 0xE2 \<and> y = 0x81 \<and> z = 0x9F) \<or>
      (x = 0xE3 \<and> y = 0x80 \<and> z = 0x80) \<or>
      (x = 0xEF \<and> y = 0xBB \<and> z = 0xBF))"

fun skip_white_space :: "string \<Rightarrow> string" where
  "skip_white_space (a # b # c # cs) =
     (if is_space a then skip_white_space (b # c # cs)
      else if is_space2 a b then skip_white_space (c # cs)
      else if is_space3 a b c then skip_white_space cs
      else a # b # c # cs)"
| "skip_white_space (a # b # cs) =
     (if is_space a then skip_white_space (b # cs)
      else if is_space2 a b then skip_white_space cs
      else a # b # cs)"
| "skip_white_space (a # cs) = (if is_space a then skip_white_space cs else a # cs)"
| "skip_white_space [] = []"

text \<open>\<open>parseInt(s)\<close> with no radix: leading white space, a sign, a \<open>0x\<close> prefix, then the
  longest run of digits; \<open>None\<close> is NaN. The value is the exact integer (JavaScript rounds
  beyond 2^53).\<close>

definition parseInt :: "string \<Rightarrow> int option" where
  "parseInt s =
     (let s1 = skip_white_space s;
          negative = startsWith s1 ''-'';
          s2 = (if startsWith s1 ''-'' \<or> startsWith s1 ''+'' then drop 1 s1 else s1);
          hex = (startsWith s2 ''0x'' \<or> startsWith s2 ''0X'');
          radix = (if hex then 16 else 10);
          s3 = (if hex then drop 2 s2 else s2);
          digits = takeWhile (\<lambda>c. digit_value radix c \<noteq> None) s3;
          n = foldl (\<lambda>a c. a * radix + (case digit_value radix c of None \<Rightarrow> 0 | Some v \<Rightarrow> v)) 0 digits
      in if digits = [] then None
         else Some (if negative then - int n else int n))"

text \<open>The decimal digits of a number, as \<open>String(n)\<close> writes them.\<close>

function show_nat :: "nat \<Rightarrow> string" where
  "show_nat n =
     (if n < 10 then [char_of (48 + n)] else show_nat (n div 10) @ [char_of (48 + n mod 10)])"
  by pat_completeness auto
termination
  by (relation "measure id") auto

definition show_int :: "int \<Rightarrow> string" where
  "show_int i = (if i < 0 then CHR ''-'' # show_nat (nat (- i)) else show_nat (nat i))"

section \<open>Objects\<close>

text \<open>A property name that is an array index: the decimal digits of a whole number from 0
  to 2^32 - 2, written without leading zeros (so at most ten digits).\<close>

definition array_index :: "string \<Rightarrow> nat option" where
  "array_index k =
     (if k \<noteq> [] \<and> length k \<le> 10 \<and>
         list_all (\<lambda>c. 48 \<le> (of_char c :: nat) \<and> (of_char c :: nat) \<le> 57) k \<and>
         (k = ''0'' \<or> \<not> startsWith k ''0'')
      then (let n = foldl (\<lambda>a c. a * 10 + ((of_char c :: nat) - 48)) 0 k
            in if n < 2 ^ 32 - 1 then Some n else None)
      else None)"

text \<open>An object enumerates its index names first, in ascending order, and then its other
  names in the order of their creation. A new index name takes its place among the
  index names at the front.\<close>

fun insert_index :: "nat \<Rightarrow> string \<Rightarrow> jsval \<Rightarrow> props \<Rightarrow> props" where
  "insert_index i k v [] = [(k, v)]"
| "insert_index i k v (p # ps) =
     (case array_index (fst p) of
        Some j \<Rightarrow> if j < i then p # insert_index i k v ps else (k, v) # p # ps
      | None \<Rightarrow> (k, v) # p # ps)"

text \<open>\<open>obj[k] = v\<close> on an ordinary object whose prototype is \<open>Object.prototype\<close>, as far as
  its own properties go: an existing property is overwritten in place, a new one is
  added in enumeration order; the name \<open>__proto__\<close>, when it is not an own property, is
  the inherited setter and adds nothing.\<close>

definition set_prop :: "string \<Rightarrow> jsval \<Rightarrow> props \<Rightarrow> props" where
  "set_prop k v ps =
     (if map_of ps k \<noteq> None then AList.update k v ps
      else if k = ''__proto__'' then ps
      else (case array_index k of
              Some i \<Rightarrow> insert_index i k v ps
            | None \<Rightarrow> ps @ [(k, v)]))"

text \<open>\<open>xs[i] = v\<close> on an array: the array grows as needed, the positions in between stay
  empty (they read as undefined).\<close>

definition set_index :: "jsval list \<Rightarrow> nat \<Rightarrow> jsval \<Rightarrow> jsval list" where
  "set_index xs i v =
     (if i < length xs then xs[i := v]
      else xs @ replicate (i - length xs) JUndefined @ [v])"

text \<open>\<open>target[index] = v\<close> where \<open>index\<close> is the result of \<open>parseInt\<close>. On an array, a
  whole number from 0 to 2^32 - 2 is an element position; any other key would be a named
  property of the array object, which the element list does not record. On an object the
  key is the number written out (in plain digits; JavaScript changes to exponent notation
  from 10^21 on). On a string, number or boolean the assignment does nothing (the module
  is not in strict mode).\<close>

definition write_index :: "jsval \<Rightarrow> int option \<Rightarrow> jsval \<Rightarrow> jsval" where
  "write_index target index v =
     (case target of
        JArr xs \<Rightarrow>
          (case index of
             None \<Rightarrow> JArr xs
           | Some i \<Rightarrow> if 0 \<le> i \<and> i < 2 ^ 32 - 1 then JArr (set_index xs (nat i) v) else JArr xs)
      | JObj ps \<Rightarrow>
          JObj (set_prop (case index of None \<Rightarrow> ''NaN'' | Some i \<Rightarrow> show_int i) v ps)
      | _ \<Rightarrow> target)"

section \<open>utils/orderValidation.js: parseFormData\<close>

text \<open>
  The middleware reads the flat keys of \<open>req.body\<close>, builds the three groups in
  \<open>parsedBody\<close>, and writes the non-empty ones back into \<open>req.body\<close>. The function
  \<open>parseFormData\<close> below takes the body (its keys distinct, in the order \<open>for ... in\<close>
  visits them) and returns the body as the middleware leaves it, or the exception it
  throws.

  A group starts as \<open>{}\<close>. A key that names \<open>__proto__\<close> does not add a property to it
  but replaces its prototype, and later reads of the group look there. A group is
  therefore its own properties together with its prototype: \<open>Object.prototype\<close>, none, or
  a value of the body (an object or an array). In the result a group shows its own
  properties. Not followed: a write into a value that the body and a group share, and a
  write that lands on a built-in object reached through an inherited name.
\<close>

datatype proto = ObjectPrototype | NullPrototype | ValuePrototype jsval

type_synonym group = "props \<times> proto"

text \<open>What a read finds: nothing, a built-in (a function, or \<open>Object.prototype\<close> itself
  under \<open>__proto__\<close>), or a value.\<close>

datatype found = NotFound | Builtin | Found jsval

text \<open>The names an array inherits from \<open>Array.prototype\<close> (ECMAScript 2023), besides those
  of \<open>Object.prototype\<close>.\<close>

definition ARRAY_PROTOTYPE_KEYS :: "string list" where
  "ARRAY_PROTOTYPE_KEYS =
     [''at'', ''concat'', ''copyWithin'', ''entries'', ''every'', ''fill'', ''filter'', ''find'',
      ''findIndex'', ''findLast'', ''findLastIndex'', ''flat'', ''flatMap'', ''forEach'',
      ''includes'', ''indexOf'', ''join'', ''keys'', ''lastIndexOf'', ''map'', ''pop'', ''push'',
      ''reduce'', ''reduceRight'', ''reverse'', ''shift'', ''slice'', ''some'', ''sort'', ''splice'',
      ''toReversed'', ''toSorted'', ''toSpliced'', ''unshift'', ''values'', ''with'']"

text \<open>What a read of the name \<open>k\<close> finds on the prototype chain of a group, above its own
  properties. A value of the body has the prototype it was parsed with.\<close>

fun inherited :: "proto \<Rightarrow> string \<Rightarrow> found" where
  "inherited ObjectPrototype k = (if k \<in> set OBJECT_PROTOTYPE_KEYS then Builtin else NotFound)"
| "inherited NullPrototype k = NotFound"
| "inherited (ValuePrototype (JObj ps)) k =
     (case map_of ps k of
        Some v \<Rightarrow> Found v
      | None \<Rightarrow> if k \<in> set OBJECT_PROTOTYPE_KEYS then Builtin else NotFound)"
| "inherited (ValuePrototype (JArr xs)) k =
     (if k = ''length'' then Found (JNum (real (length xs)))
      else (case array_index k of
              Some i \<Rightarrow> if i < length xs then Found (xs ! i) else NotFound
            | None \<Rightarrow>
                if k \<in> set ARRAY_PROTOTYPE_KEYS \<or> k \<in> set OBJECT_PROTOTYPE_KEYS then Builtin
                else NotFound))"
| "inherited (ValuePrototype v) k = NotFound"

text \<open>\<open>group[k]\<close>.\<close>

definition group_get :: "group \<Rightarrow> string \<Rightarrow> found" where
  "group_get g k = (case map_of (fst g) k of Some v \<Rightarrow> Found v | None \<Rightarrow> inherited (snd g) k)"

text \<open>The setter of \<open>__proto__\<close>: an object or an array becomes the prototype, null removes
  it, any other value is ignored.\<close>

definition set_prototype :: "jsval \<Rightarrow> proto \<Rightarrow> proto" where
  "set_prototype v p =
     (case v of
        JObj ps \<Rightarrow> ValuePrototype v
      | JArr xs \<Rightarrow> ValuePrototype v
      | JNull \<Rightarrow> NullPrototype
      | _ \<Rightarrow> p)"

text \<open>\<open>group[k] = v\<close>. The name \<open>__proto__\<close> that is not an own property reaches the setter
  when the chain still leads to the one \<open>Object.prototype\<close> defines; with no prototype, or
  under a prototype that holds a property of that name, it becomes an own property.\<close>

definition group_set :: "string \<Rightarrow> jsval \<Rightarrow> group \<Rightarrow> group" where
  "group_set k v g =
     (if k = ''__proto__'' \<and> map_of (fst g) k = None then
        (if inherited (snd g) k = Builtin then (fst g, set_prototype v (snd g))
         else (fst g @ [(k, v)], snd g))
      else (set_prop k v (fst g), snd g))"

record parsedBody =
  pb_personalInfo :: group
  pb_cardDesign :: group
  pb_deliveryInfo :: group

text \<open>\<open>const parsedBody = { personalInfo: {}, cardDesign: {}, deliveryInfo: {} }\<close>.\<close>

definition empty_parsedBody :: parsedBody where
  "empty_parsedBody =
     \<lparr>pb_personalInfo = ([], ObjectPrototype), pb_cardDesign = ([], ObjectPrototype),
      pb_deliveryInfo = ([], ObjectPrototype)\<rparr>"

text \<open>The branch of the loop for a key that starts with \<open>personalInfo[\<close>. For an array key,
  \<open>target\<close> is what \<open>parsedBody.personalInfo[arrayKey]\<close> holds when the value is written at
  the index: the own property, which a false one has just been replaced by \<open>[]\<close>, or a
  new \<open>[]\<close> when nothing true is found; when what is found is inherited and true, the group
  stays as it is.\<close>

definition personalInfo_entry :: "group \<Rightarrow> string \<Rightarrow> jsval \<Rightarrow> error + group" where
  "personalInfo_entry grp key v =
     (let nestedKey = str_replace (str_replace key ''personalInfo['' []) '']'' [] in
      if str_includes nestedKey ''['' \<and> str_includes nestedKey '']'' then
        (case (at_index (str_split nestedKey CHR ''['') 0,
               at_index (str_split nestedKey CHR ''['') 1) of
           (Some arrayKey, Some rest) \<Rightarrow>
             let arrayIndex = parseInt (str_replace rest '']'' []) in
             (case map_of (fst grp) arrayKey of
                Some existing \<Rightarrow>
                  if \<not> truthy existing
                  then Inr (group_set arrayKey (write_index (JArr []) arrayIndex v) grp)
                  else Inr (group_set arrayKey (write_index existing arrayIndex v) grp)
              | None \<Rightarrow>
                  (case inherited (snd grp) arrayKey of
                     NotFound \<Rightarrow> Inr (group_set arrayKey (write_index (JArr []) arrayIndex v) grp)
                   | Builtin \<Rightarrow> Inr grp
                   | Found upper \<Rightarrow>
                       if \<not> truthy upper
                       then Inr (group_set arrayKey (write_index (JArr []) arrayIndex v) grp)
                       else Inr grp))
         | _ \<Rightarrow> Inl TypeError)
      else Inr (group_set nestedKey v grp))"

text \<open>The loop over the keys of the body.\<close>

fun parse_keys :: "props \<Rightarrow> parsedBody \<Rightarrow> error + parsedBody" where
  "parse_keys [] pb = Inr pb"
| "parse_keys ((key, v) # rest) pb =
     (if startsWith key ''personalInfo['' then
        (case personalInfo_entry (pb_personalInfo pb) key v of
           Inl e \<Rightarrow> Inl e
         | Inr grp \<Rightarrow> parse_keys rest (pb\<lparr>pb_personalInfo := grp\<rparr>))
      else if startsWith key ''cardDesign['' then
        (let nestedKey = str_replace (str_replace key ''cardDesign['' []) '']'' []
         in parse_keys rest (pb\<lparr>pb_cardDesign := group_set nestedKey v (pb_cardDesign pb)\<rparr>))
      else if startsWith key ''deliveryInfo['' then
        (let nestedKey = str_replace (str_replace key ''deliveryInfo['' []) '']'' []
         in parse_keys rest (pb\<lparr>pb_deliveryInfo := group_set nestedKey v (pb_deliveryInfo pb)\<rparr>))
      else parse_keys rest pb)"

text \<open>"Convert string boolean to actual boolean": when the property is not undefined, it
  becomes \<open>v === 'true' || v === true\<close>.\<close>

definition coerce_boolean :: "string \<Rightarrow> group \<Rightarrow> group" where
  "coerce_boolean name obj =
     (case group_get obj name of
        NotFound \<Rightarrow> obj
      | Builtin \<Rightarrow> group_set name (JBool False) obj
      | Found v \<Rightarrow>
          if v \<noteq> JUndefined then group_set name (JBool (v = JStr ''true'' \<or> v = JBool True)) obj
          else obj)"

text \<open>"Handle color": \<open>color.toLowerCase()\<close> exists on a string only; on any other value
  that passes the condition the call throws.\<close>

definition normalize_color :: "group \<Rightarrow> error + group" where
  "normalize_color obj =
     (case group_get obj ''color'' of
        NotFound \<Rightarrow> Inr obj
      | Builtin \<Rightarrow> Inl TypeError
      | Found c \<Rightarrow>
          if truthy c then
            (case c of
               JStr s \<Rightarrow>
                 let color = toLowerCase s in
                 if color = ''#000'' \<or> color = ''#000000'' \<or> color = ''black''
                 then Inr (group_set ''color'' (JStr ''black'') obj)
                 else if color = ''#fff'' \<or> color = ''#ffffff'' \<or> color = ''white''
                 then Inr (group_set ''color'' (JStr ''white'') obj)
                 else Inr obj
             | _ \<Rightarrow> Inl TypeError)
          else Inr obj)"

definition parseFormData :: "props \<Rightarrow> error + props" where
  "parseFormData body =
     (case parse_keys body empty_parsedBody of
        Inl e \<Rightarrow> Inl e
      | Inr parsed \<Rightarrow>
          let body1 = (if length (fst (pb_personalInfo parsed)) > 0
                       then set_prop ''personalInfo'' (JObj (fst (pb_personalInfo parsed))) body
                       else body)
          in
          (case (if length (fst (pb_cardDesign parsed)) > 0
                 then (case normalize_color (coerce_boolean ''includePrintedLogo'' (pb_cardDesign parsed)) of
                         Inl e \<Rightarrow> Inl e
                       | Inr design \<Rightarrow> Inr (set_prop ''cardDesign'' (JObj (fst design)) body1))
                 else Inr body1) of
             Inl e \<Rightarrow> Inl e
           | Inr body2 \<Rightarrow>
               if length (fst (pb_deliveryInfo parsed)) > 0
               then Inr (set_prop ''deliveryInfo''
                           (JObj (fst (coerce_boolean ''useSameContact'' (pb_deliveryInfo parsed)))) body2)
               else Inr body2))"

section \<open>utils/fileUpload.js\<close>

text \<open>\<open>getRelativeFilePath(file)\<close>: the path from behind the first \<open>public\<close>, or the bare
  file name; \<open>None\<close> is null.\<close>

definition getRelativeFilePath :: "upload option \<Rightarrow> string option" where
  "getRelativeFilePath file' =
     (case file' of
        None \<Rightarrow> None
      | Some f \<Rightarrow>
          (case indexOf (path f) ''public'' of
             Some publicIndex \<Rightarrow> Some (drop (publicIndex + 6) (path f))
           | None \<Rightarrow> Some (filename f)))"

section \<open>models/productModel.js\<close>

record product =
  title :: string
  description :: string
  price :: real
  colors :: "string list"
  images :: "jsval list"
  isMainProduct :: bool
  createdBy :: string
  createdAt :: nat
  updatedAt :: nat
  isNew :: bool

text \<open>The schema option \<open>timestamps: true\<close>: the library's own hook, which runs before the
  hooks of the schema. A new document gets its \<open>createdAt\<close> as \<open>updatedAt\<close>. (On a stored
  document it may set \<open>updatedAt\<close> to the current time; the first hook of the schema does
  so in any case.)\<close>

definition timestamps :: "product \<Rightarrow> product" where
  "timestamps doc = (if isNew doc then doc\<lparr>updatedAt := createdAt doc\<rparr> else doc)"

text \<open>The two \<open>pre('save')\<close> hooks, in the order the schema registers them.\<close>

definition touch_updatedAt :: "nat \<Rightarrow> product \<Rightarrow> product" where
  "touch_updatedAt now doc = (if \<not> isNew doc then doc\<lparr>updatedAt := now\<rparr> else doc)"

definition DEFAULT_IMAGE :: string where
  "DEFAULT_IMAGE = ''/img/products/default-product.jpg''"

definition ensure_image :: "product \<Rightarrow> product" where
  "ensure_image doc =
     (if length (images doc) = 0 then doc\<lparr>images := images doc @ [JStr DEFAULT_IMAGE]\<rparr> else doc)"

text \<open>\<open>doc.save()\<close>: the schema's validation (the library's, a parameter here) runs first,
  then the hooks, then the document is stored; the result is the stored document.\<close>

definition save :: "(product \<Rightarrow> bool) \<Rightarrow> nat \<Rightarrow> product \<Rightarrow> error + product" where
  "save validate now doc =
     (if \<not> validate doc then Inl ValidationError
      else Inr ((ensure_image (touch_updatedAt now (timestamps doc)))\<lparr>isNew := False\<rparr>))"

section \<open>utils/orderUtils.js\<close>

text \<open>Modelled from the spec: \<open>calculateOrderTotal\<close> of utils/orderUtils.js, which is not
  among the sources. "Computes a fixed logo surcharge when includePrintedLogo is true,
  zero otherwise; total is the sum." The amount of the surcharge is not given: it is the
  first argument. The result is the pair (total, logoSurcharge).\<close>

definition calculateOrderTotal :: "real \<Rightarrow> real \<Rightarrow> bool \<Rightarrow> real \<times> real" where
  "calculateOrderTotal surcharge productPrice' includePrintedLogo =
     (let logoSurcharge' = (if includePrintedLogo then surcharge else 0)
      in (productPrice' + logoSurcharge', logoSurcharge'))"

section \<open>The order controller\<close>

text \<open>
  The helpers of utils/orderUtils.js that the controller calls are arguments of the
  handlers: \<open>setOrderDefaults\<close>, \<open>processOrderFiles\<close>, \<open>calculateOrderTotal\<close> (its result
  the pair of \<open>total\<close> and \<open>logoSurcharge\<close>), \<open>buildOrderUpdateObject\<close>; so are the lookups
  \<open>Product.findById\<close> and \<open>Order.findById\<close>. A handler's result is what it hands to the
  database, or the error it ends with.
\<close>

text \<open>\<open>createOrder\<close>: the result is the body given to \<open>Order.create\<close>.\<close>

definition createOrder ::
  "(order \<Rightarrow> 'u \<Rightarrow> order) \<Rightarrow> (files option \<Rightarrow> order \<Rightarrow> order) \<Rightarrow>
   (real \<Rightarrow> jsval \<Rightarrow> jsval \<times> jsval) \<Rightarrow> (string option \<Rightarrow> error + product option) \<Rightarrow>
   'u \<Rightarrow> files option \<Rightarrow> order \<Rightarrow> error + order" where
  "createOrder setOrderDefaults processOrderFiles calculateOrderTotal' findById user files' body =
     (let body1 = setOrderDefaults body user in
      case validateRequiredFields body1 of
        Some requiredFieldsError \<Rightarrow> Inl (AppError requiredFieldsError 400)
      | None \<Rightarrow>
          (case findById (product body1) of
             Inl e \<Rightarrow> Inl e
           | Inr None \<Rightarrow> Inl (AppError ''Product not found'' 404)
           | Inr (Some p) \<Rightarrow>
               let body2 = processOrderFiles files' body1;
                   (total', surcharge) =
                     calculateOrderTotal' (price p) (opt_get (cardDesign body2) ''includePrintedLogo'');
                   body3 = body2\<lparr>productPrice := JNum (price p), orderTotal := total',
                                 logoSurcharge := surcharge\<rparr>
               in
               (case validateCompanyLogo (cardDesign body3) files' None of
                  Some logoError \<Rightarrow> Inl (AppError logoError 400)
                | None \<Rightarrow>
                    (case validateDeliveryInfo (deliveryInfo body3) None of
                       Inl e \<Rightarrow> Inl e
                     | Inr (Some deliveryError) \<Rightarrow> Inl (AppError deliveryError 400)
                     | Inr None \<Rightarrow> Inr body3))))"

text \<open>\<open>updateOrder\<close>: the result is the update set given to \<open>Order.findByIdAndUpdate\<close> under
  \<open>$set\<close>. \<open>req.files.companyLogo[0].path\<close> throws on an empty list of files.\<close>

definition updateOrder ::
  "(order \<Rightarrow> props) \<Rightarrow> (files option \<Rightarrow> order \<Rightarrow> order) \<Rightarrow> (string \<Rightarrow> order option) \<Rightarrow>
   string \<Rightarrow> files option \<Rightarrow> order \<Rightarrow> error + props" where
  "updateOrder buildOrderUpdateObject processOrderFiles findById oid files' body =
     (case findById oid of
        None \<Rightarrow> Inl (AppError ''No order found with that ID'' 404)
      | Some existingOrder \<Rightarrow>
          let body1 = processOrderFiles files' body in
          (case validateCompanyLogo (cardDesign body1) files' (Some existingOrder) of
             Some logoError \<Rightarrow> Inl (AppError logoError 400)
           | None \<Rightarrow>
               (case validateDeliveryInfo (deliveryInfo body1) (Some existingOrder) of
                  Inl e \<Rightarrow> Inl e
                | Inr (Some deliveryError) \<Rightarrow> Inl (AppError deliveryError 400)
                | Inr None \<Rightarrow>
                    (case (case files' of
                             None \<Rightarrow> Inr (buildOrderUpdateObject body1)
                           | Some fs \<Rightarrow>
                               (case map_of fs ''companyLogo'' of
                                  None \<Rightarrow> Inr (buildOrderUpdateObject body1)
                                | Some [] \<Rightarrow> Inl TypeError
                                | Some (f # rest) \<Rightarrow>
                                    Inr (set_prop ''cardDesign.companyLogo'' (JStr (path f))
                                           (buildOrderUpdateObject body1)))) of
                       Inl e \<Rightarrow> Inl e
                     | Inr updateData \<Rightarrow>
                         if length updateData = 0
                         then Inl (AppError ''No valid fields provided for update'' 400)
                         else Inr updateData))))"

text \<open>The message of \<open>updateOrderStatus\<close>.\<close>

definition status_message :: "string \<Rightarrow> string" where
  "status_message s =
     (if s = ''confirmed'' then ''Order confirmed! Your NFC card will be printed soon.''
      else if s = ''printed'' then ''Your NFC card has been printed and is ready for shipping!''
      else if s = ''shipped'' then ''Your NFC card has been shipped! You will receive it soon.''
      else if s = ''delivered'' then ''Order delivered successfully! Thank you for your business.''
      else ''Order status updated to '' @ s)"

text \<open>Modelled from the spec: the statuses that models/orderModel.js, which is not among the
  sources, recognizes: "the fixed set {pending, confirmed, printed, shipped, delivered,
  cancelled}".\<close>

definition ORDER_STATUSES :: "string list" where
  "ORDER_STATUSES = [''pending'', ''confirmed'', ''printed'', ''shipped'', ''delivered'', ''cancelled'']"

text \<open>Modelled from the spec: \<open>order.updateStatus(status)\<close> of models/orderModel.js, which is
  not among the sources. "Apply the new status"; "any provided status is accepted as long
  as it is a recognized value". The text of the error for any other status is not given:
  it is the first argument.\<close>

definition updateStatus :: "string \<Rightarrow> order \<Rightarrow> string \<Rightarrow> string + order" where
  "updateStatus msg order' s =
     (if s \<in> set ORDER_STATUSES then Inr (order'\<lparr>status := Some s\<rparr>) else Inl msg)"

text \<open>\<open>updateOrderStatus\<close> on the stored orders \<open>db\<close> (order id to order): the result is
  the store after \<open>order.save()\<close>, the order and the message of the response. Saving is
  modelled from the spec ("persist"): the order is stored as it is.\<close>

definition updateOrderStatus ::
  "string \<Rightarrow> (string \<Rightarrow> order option) \<Rightarrow> string \<Rightarrow> string option \<Rightarrow> string option \<Rightarrow>
   error + ((string \<Rightarrow> order option) \<times> order \<times> string)" where
  "updateOrderStatus msg db oid status' notes' =
     (case status' of
        None \<Rightarrow> Inl (AppError ''Please provide a status'' 400)
      | Some s \<Rightarrow>
          if s = [] then Inl (AppError ''Please provide a status'' 400)
          else
            (case db oid of
               None \<Rightarrow> Inl (AppError ''No order found with that ID'' 404)
             | Some order' \<Rightarrow>
                 (case updateStatus msg order' s of
                    Inl m \<Rightarrow> Inl (AppError m 400)
                  | Inr updated \<Rightarrow>
                      let saved = (if present notes' then updated\<lparr>orderNotes := notes'\<rparr> else updated)
                      in Inr (db(oid \<mapsto> saved), saved, status_message s))))"

section \<open>The validators\<close>

lemma map_of_COUNTRY_CITY_MAP:
  "map_of COUNTRY_CITY_MAP c =
     (if c = ''JO'' then Some [''Amman'', ''Irbid'', ''Zarqa'', ''Aqaba'', ''Salt'']
      else if c = ''UK'' then Some [''London'', ''Manchester'', ''Birmingham'', ''Liverpool'', ''Bristol'']
      else None)"
  by (simp add: COUNTRY_CITY_MAP_def)

lemma countries_listed: "join '', '' (map fst COUNTRY_CITY_MAP) = ''JO, UK''"
  by (simp add: COUNTRY_CITY_MAP_def)

text \<open>
  Claim C3. \<open>validateCompanyLogo\<close> returns null whenever \<open>cardDesign.includePrintedLogo\<close>
  does not hold (the design is missing, or the flag is missing or false as a condition).
  When it holds, the result is the fixed message exactly when none of the three sources
  of a logo is there: a logo value on the incoming design, a non-empty list of uploaded
  \<open>companyLogo\<close> files, a logo on the design of the existing order; with any one of them
  the result is null. For a boolean flag, \<open>truthy (JBool b) = b\<close>.
\<close>

theorem validateCompanyLogo_cases:
  "validateCompanyLogo design fs existing =
     (if \<not> truthy (opt_get design ''includePrintedLogo'') then None
      else if truthy (get_prop design ''companyLogo'')
              \<or> (\<exists>uploaded l. fs = Some uploaded \<and> map_of uploaded ''companyLogo'' = Some l \<and> l \<noteq> [])
              \<or> (\<exists>e. existing = Some e \<and> truthy (opt_get (cardDesign e) ''companyLogo''))
           then None
           else Some ''Company logo is required when printed logo is selected'')"
  by (cases design)
     (auto simp: validateCompanyLogo_def opt_get_def Let_def LOGO_REQUIRED_def split: option.splits)

text \<open>The three cases on a design that asks for a printed logo, on one that does not, and
  on one that comes with an uploaded file.\<close>

theorem validateCompanyLogo_cases_witness:
  "validateCompanyLogo (JObj [(''includePrintedLogo'', JBool True)]) (Some []) None =
     Some ''Company logo is required when printed logo is selected'' \<and>
   validateCompanyLogo (JObj [(''includePrintedLogo'', JBool False)]) (Some []) None = None \<and>
   validateCompanyLogo (JObj [(''includePrintedLogo'', JBool True)])
     (Some [(''companyLogo'', [\<lparr>fieldname = ''companyLogo'', path = ''/srv/public/uploads/companyLogo/a.png'',
                                filename = ''a.png''\<rparr>])]) None = None"
  using validateCompanyLogo_cases [of "JObj [(''includePrintedLogo'', JBool True)]" "Some []" None]
        validateCompanyLogo_cases [of "JObj [(''includePrintedLogo'', JBool False)]" "Some []" None]
        validateCompanyLogo_cases [of "JObj [(''includePrintedLogo'', JBool True)]"
          "Some [(''companyLogo'', [\<lparr>fieldname = ''companyLogo'', path = ''/srv/public/uploads/companyLogo/a.png'',
                                filename = ''a.png''\<rparr>])]" None]
  by (simp add: opt_get_def)

text \<open>
  Claim C2, as stated, fails: \<open>validateCountryCity('JO', '')\<close> is null, and the empty
  string is no city of \<open>JO\<close>. The function skips the check when either argument is
  missing or empty.
\<close>

theorem validateCountryCity_null_counterexample:
  "validateCountryCity (Some ''JO'') (Some '''') = Inr None \<and>
   map_of COUNTRY_CITY_MAP ''JO'' = Some [''Amman'', ''Irbid'', ''Zarqa'', ''Aqaba'', ''Salt''] \<and>
   '''' \<notin> set [''Amman'', ''Irbid'', ''Zarqa'', ''Aqaba'', ''Salt'']"
  by (simp add: validateCountryCity_def COUNTRY_CITY_MAP_def)

text \<open>
  Claim C2, amended. For a country that is not one of the names an object inherits:
  \<open>validateCountryCity\<close> returns null if and only if the country or the city is missing
  or empty, or the city is in the list of the country; for a country and a city that
  are both there, an unknown country yields the message that lists \<open>JO, UK\<close>, and a known
  country with a city not in its list yields the message that lists its cities.
\<close>

theorem validateCountryCity_amended:
  assumes "\<forall>c. country' = Some c \<longrightarrow> c \<notin> set OBJECT_PROTOTYPE_KEYS"
  shows "(validateCountryCity country' city' = Inr None \<longleftrightarrow>
            \<not> present country' \<or> \<not> present city' \<or>
            (\<exists>c t cities. country' = Some c \<and> city' = Some t \<and>
               map_of COUNTRY_CITY_MAP c = Some cities \<and> t \<in> set cities)) \<and>
         (\<forall>c t. country' = Some c \<and> c \<noteq> [] \<and> city' = Some t \<and> t \<noteq> [] \<and>
                map_of COUNTRY_CITY_MAP c = None \<longrightarrow>
            validateCountryCity country' city' =
              Inr (Some (''Invalid country '' @ [CHR 0x27] @ c @ [CHR 0x27] @
                         ''. Available countries are: JO, UK''))) \<and>
         (\<forall>c t cities. country' = Some c \<and> c \<noteq> [] \<and> city' = Some t \<and> t \<noteq> [] \<and>
                map_of COUNTRY_CITY_MAP c = Some cities \<and> t \<notin> set cities \<longrightarrow>
            validateCountryCity country' city' =
              Inr (Some (''Invalid city '' @ [CHR 0x27] @ t @ [CHR 0x27] @ '' for country '' @
                         [CHR 0x27] @ c @ [CHR 0x27] @ ''. Valid cities are: '' @ join '', '' cities)))"
proof (intro conjI allI impI)
  show "validateCountryCity country' city' = Inr None \<longleftrightarrow>
          \<not> present country' \<or> \<not> present city' \<or>
          (\<exists>c t cities. country' = Some c \<and> city' = Some t \<and>
             map_of COUNTRY_CITY_MAP c = Some cities \<and> t \<in> set cities)"
    using assms
    by (cases country'; cases city') (auto simp: validateCountryCity_def split: option.splits)
next
  fix c t
  assume "country' = Some c \<and> c \<noteq> [] \<and> city' = Some t \<and> t \<noteq> [] \<and> map_of COUNTRY_CITY_MAP c = None"
  then show "validateCountryCity country' city' =
      Inr (Some (''Invalid country '' @ [CHR 0x27] @ c @ [CHR 0x27] @ ''. Available countries are: JO, UK''))"
    using assms countries_listed by (simp add: validateCountryCity_def)
next
  fix c t cities
  assume "country' = Some c \<and> c \<noteq> [] \<and> city' = Some t \<and> t \<noteq> [] \<and>
          map_of COUNTRY_CITY_MAP c = Some cities \<and> t \<notin> set cities"
  then show "validateCountryCity country' city' =
      Inr (Some (''Invalid city '' @ [CHR 0x27] @ t @ [CHR 0x27] @ '' for country '' @
                 [CHR 0x27] @ c @ [CHR 0x27] @ ''. Valid cities are: '' @ join '', '' cities))"
    by (simp add: validateCountryCity_def)
qed

text \<open>A listed city, an unknown country, and a city that is not in the list of its
  country.\<close>

theorem validateCountryCity_amended_witness:
  "validateCountryCity (Some ''UK'') (Some ''London'') = Inr None \<and>
   validateCountryCity (Some ''FR'') (Some ''Paris'') =
     Inr (Some (''Invalid country '' @ [CHR 0x27] @ ''FR'' @ [CHR 0x27] @ ''. Available countries are: JO, UK'')) \<and>
   validateCountryCity (Some ''UK'') (Some ''Paris'') =
     Inr (Some (''Invalid city '' @ [CHR 0x27] @ ''Paris'' @ [CHR 0x27] @ '' for country '' @ [CHR 0x27] @ ''UK'' @
                [CHR 0x27] @ ''. Valid cities are: London, Manchester, Birmingham, Liverpool, Bristol''))"
proof -
  have uk: "\<forall>c. Some ''UK'' = Some c \<longrightarrow> c \<notin> set OBJECT_PROTOTYPE_KEYS"
    by (simp add: OBJECT_PROTOTYPE_KEYS_def)
  have fr: "\<forall>c. Some ''FR'' = Some c \<longrightarrow> c \<notin> set OBJECT_PROTOTYPE_KEYS"
    by (simp add: OBJECT_PROTOTYPE_KEYS_def)
  show ?thesis
    using validateCountryCity_amended [OF uk, of "Some ''London''"]
          validateCountryCity_amended [OF fr, of "Some ''Paris''"]
          validateCountryCity_amended [OF uk, of "Some ''Paris''"]
    by (simp add: map_of_COUNTRY_CITY_MAP)
qed

text \<open>A country named like an inherited property is found in the table as a built-in
  value, and the call of \<open>includes\<close> on it throws.\<close>

lemma validateCountryCity_inherited_name:
  "validateCountryCity (Some ''constructor'') (Some ''Amman'') = Inl TypeError"
  by (simp add: validateCountryCity_def COUNTRY_CITY_MAP_def OBJECT_PROTOTYPE_KEYS_def)

text \<open>
  Claim C10. With no \<open>deliveryInfo\<close> in the update, \<open>validateDeliveryInfo\<close> returns null
  whatever the existing order holds, so the country and city check does not run. With a
  \<open>deliveryInfo\<close> that gives both country and city, the result is that of
  \<open>validateCountryCity\<close> on the two, and the existing order plays no part. The stored
  value stands in for a field that \<open>deliveryInfo\<close> leaves out.
\<close>

theorem validateDeliveryInfo_fallback:
  "validateDeliveryInfo None existingOrder = Inr None \<and>
   (present (country d) \<and> present (city d) \<longrightarrow>
      validateDeliveryInfo (Some d) existingOrder = validateCountryCity (country d) (city d)) \<and>
   (\<forall>e stored. existingOrder = Some e \<and> deliveryInfo e = Some stored \<longrightarrow>
      validateDeliveryInfo (Some d) existingOrder =
        validateCountryCity (if present (country d) then country d else country stored)
                            (if present (city d) then city d else city stored))"
  by (auto simp: validateDeliveryInfo_def or_else_def Let_def)

text \<open>An existing order stored with a country that is not in the table: an update
  without \<open>deliveryInfo\<close> passes, one with both fields is judged on them alone, one with
  the city alone is judged with the stored country.\<close>

theorem validateDeliveryInfo_fallback_witness:
  "validateDeliveryInfo None
     (Some \<lparr>personalInfo = JNull, cardDesign = JNull,
            deliveryInfo = Some \<lparr>country = Some ''FR'', city = Some ''Paris''\<rparr>,
            product = None, productPrice = JNull, orderTotal = JNull, logoSurcharge = JNull,
            status = None, orderNotes = None\<rparr>) = Inr None \<and>
   validateDeliveryInfo (Some \<lparr>country = Some ''JO'', city = Some ''Amman''\<rparr>)
     (Some \<lparr>personalInfo = JNull, cardDesign = JNull,
            deliveryInfo = Some \<lparr>country = Some ''FR'', city = Some ''Paris''\<rparr>,
            product = None, productPrice = JNull, orderTotal = JNull, logoSurcharge = JNull,
            status = None, orderNotes = None\<rparr>) = Inr None \<and>
   validateDeliveryInfo (Some \<lparr>country = None, city = Some ''Amman''\<rparr>)
     (Some \<lparr>personalInfo = JNull, cardDesign = JNull,
            deliveryInfo = Some \<lparr>country = Some ''FR'', city = Some ''Paris''\<rparr>,
            product = None, productPrice = JNull, orderTotal = JNull, logoSurcharge = JNull,
            status = None, orderNotes = None\<rparr>) =
     Inr (Some (''Invalid country '' @ [CHR 0x27] @ ''FR'' @ [CHR 0x27] @ ''. Available countries are: JO, UK''))"
  (is "validateDeliveryInfo None (Some ?e) = _ \<and> validateDeliveryInfo (Some ?d1) _ = _ \<and>
       validateDeliveryInfo (Some ?d2) _ = _")
  using validateDeliveryInfo_fallback [of "Some ?e" ?d1]
        validateDeliveryInfo_fallback [of "Some ?e" ?d2]
  by (simp add: validateCountryCity_def COUNTRY_CITY_MAP_def OBJECT_PROTOTYPE_KEYS_def)

section \<open>Products\<close>

text \<open>
  Claim C8. After every successful save of a product the list of images is not empty:
  an empty list has the default image put in before the document is stored, and a list
  that is not empty is stored as it is.
\<close>

theorem save_images_nonempty:
  assumes "save validate now doc = Inr stored"
  shows "images stored \<noteq> [] \<and>
         (images doc = [] \<longrightarrow> images stored = [JStr ''/img/products/default-product.jpg'']) \<and>
         (images doc \<noteq> [] \<longrightarrow> images stored = images doc)"
  using assms
  by (auto simp: save_def ensure_image_def touch_updatedAt_def timestamps_def DEFAULT_IMAGE_def split: if_splits)

text \<open>A new product saved with no image.\<close>

theorem save_images_nonempty_witness:
  "save (\<lambda>doc. 0 \<le> price doc) 1700
     \<lparr>title = ''NFC card'', description = ''A business card'', price = 20, colors = [''black''],
      images = [], isMainProduct = False, createdBy = ''u1'', createdAt = 1700, updatedAt = 1700,
      isNew = True\<rparr> =
   Inr \<lparr>title = ''NFC card'', description = ''A business card'', price = 20, colors = [''black''],
        images = [JStr ''/img/products/default-product.jpg''], isMainProduct = False,
        createdBy = ''u1'', createdAt = 1700, updatedAt = 1700, isNew = False\<rparr>"
  (is "save ?v ?now ?doc = Inr ?stored")
proof -
  have saved: "save ?v ?now ?doc = Inr ((ensure_image (touch_updatedAt ?now (timestamps ?doc)))\<lparr>isNew := False\<rparr>)"
    by (simp add: save_def)
  from save_images_nonempty [OF saved] show ?thesis
    unfolding saved by (simp add: ensure_image_def touch_updatedAt_def timestamps_def DEFAULT_IMAGE_def)
qed

section \<open>Pricing\<close>

text \<open>
  Claim C1. \<open>calculateOrderTotal\<close> is a function of the price and the flag alone; with a
  surcharge that is positive, the total it returns is the price plus the logo surcharge
  it returns, and that surcharge is zero if and only if the flag is false: with the flag
  set it is the fixed surcharge.
\<close>

theorem calculateOrderTotal_sum:
  assumes "0 < surcharge"
  shows "(case calculateOrderTotal surcharge p flag of
            (total', ls) \<Rightarrow>
              total' = p + ls \<and> (ls = 0 \<longleftrightarrow> \<not> flag) \<and> (flag \<longrightarrow> ls = surcharge \<and> 0 < ls))"
  using assms by (simp add: calculateOrderTotal_def)

text \<open>A price of 20 and a surcharge of 5, with and without the logo.\<close>

theorem calculateOrderTotal_sum_witness:
  "(0::real) < 5 \<and> calculateOrderTotal 5 20 True = (25, 5) \<and> calculateOrderTotal 5 20 False = (20, 0)"
  using calculateOrderTotal_sum [of 5 20 True] calculateOrderTotal_sum [of 5 20 False]
  by (auto split: prod.splits)

section \<open>Status transitions\<close>

lemma sublist_status_updated: "sublist ''status updated'' (''Order status updated to '' @ s)"
proof -
  have "''Order status updated to '' @ s = ''Order '' @ ''status updated'' @ ('' to '' @ s)"
    by simp
  then show ?thesis
    unfolding sublist_def by blast
qed

text \<open>
  Claim C4. A status request on an existing order with a recognized status succeeds;
  the order that is stored has the requested status, and the message depends on the
  status: \<open>confirmed\<close>, \<open>printed\<close>, \<open>shipped\<close> and \<open>delivered\<close> have a wording of their own
  (for \<open>confirmed\<close> "Order confirmed! Your NFC card will be printed soon."), every other
  status gets the message "Order status updated to " followed by the status, which
  contains "status updated".
\<close>

theorem updateOrderStatus_message:
  assumes "s \<in> set ORDER_STATUSES" and "db oid = Some existing"
  shows "(case updateOrderStatus msg db oid (Some s) notes' of
            Inl e \<Rightarrow> False
          | Inr (db', saved, message) \<Rightarrow>
              db' oid = Some saved \<and> status saved = Some s \<and>
              (s = ''confirmed'' \<longrightarrow> message = ''Order confirmed! Your NFC card will be printed soon.'') \<and>
              (s = ''printed'' \<longrightarrow> message = ''Your NFC card has been printed and is ready for shipping!'') \<and>
              (s = ''shipped'' \<longrightarrow> message = ''Your NFC card has been shipped! You will receive it soon.'') \<and>
              (s = ''delivered'' \<longrightarrow> message = ''Order delivered successfully! Thank you for your business.'') \<and>
              (s \<notin> {''confirmed'', ''printed'', ''shipped'', ''delivered''} \<longrightarrow>
                 message = ''Order status updated to '' @ s \<and> sublist ''status updated'' message))"
proof -
  define saved where
    "saved = (if present notes' then existing\<lparr>status := Some s, orderNotes := notes'\<rparr>
              else existing\<lparr>status := Some s\<rparr>)"
  have ne: "s \<noteq> []"
    using assms(1) by (auto simp: ORDER_STATUSES_def)
  have res: "updateOrderStatus msg db oid (Some s) notes' =
               Inr (db(oid \<mapsto> saved), saved, status_message s)"
    using assms ne by (simp add: updateOrderStatus_def updateStatus_def saved_def Let_def)
  have st: "status saved = Some s"
    by (simp add: saved_def)
  have generic: "s \<notin> {''confirmed'', ''printed'', ''shipped'', ''delivered''} \<Longrightarrow>
      status_message s = ''Order status updated to '' @ s"
    by (simp add: status_message_def)
  show ?thesis
    unfolding res
    using st generic sublist_status_updated [of s]
    by (simp add: status_message_def)
qed

text \<open>The order \<open>o1\<close>, pending, is confirmed.\<close>

theorem updateOrderStatus_message_witness:
  "''confirmed'' \<in> set ORDER_STATUSES \<and>
   (case updateOrderStatus ''Invalid status''
           (\<lambda>i. if i = ''o1'' then Some \<lparr>personalInfo = JNull, cardDesign = JNull, deliveryInfo = None,
                    product = Some ''p1'', productPrice = JNum 20, orderTotal = JNum 20,
                    logoSurcharge = JNum 0, status = Some ''pending'', orderNotes = None\<rparr> else None)
           ''o1'' (Some ''confirmed'') None of
      Inl e \<Rightarrow> False
    | Inr (db', saved, message) \<Rightarrow>
        db' ''o1'' = Some saved \<and> status saved = Some ''confirmed'' \<and>
        message = ''Order confirmed! Your NFC card will be printed soon.'')"
  (is "_ \<and> (case updateOrderStatus _ ?db _ _ _ of Inl e \<Rightarrow> False | Inr r \<Rightarrow> ?Q r)")
proof -
  have rec: "''confirmed'' \<in> set ORDER_STATUSES"
    by (simp add: ORDER_STATUSES_def)
  have found: "?db ''o1'' = Some \<lparr>personalInfo = JNull, cardDesign = JNull, deliveryInfo = None,
                    product = Some ''p1'', productPrice = JNum 20, orderTotal = JNum 20,
                    logoSurcharge = JNum 0, status = Some ''pending'', orderNotes = None\<rparr>"
    by simp
  show ?thesis
    using rec found
      updateOrderStatus_message [where s = "''confirmed''" and db = ?db and oid = "''o1''"
        and msg = "''Invalid status''" and notes' = None]
    by (auto split: sum.splits prod.splits)
qed

section \<open>Creating an order\<close>

lemma validateRequiredFields_pricing:
  "validateRequiredFields (b\<lparr>productPrice := x, orderTotal := y, logoSurcharge := z\<rparr>) =
   validateRequiredFields b"
  by (simp add: validateRequiredFields_def)

text \<open>
  Claim C9. When \<open>createOrder\<close> succeeds, the order it hands to \<open>Order.create\<close> has
  as \<open>productPrice\<close> the price stored on the product that \<open>Product.findById\<close> found,
  and as \<open>total\<close> and \<open>logoSurcharge\<close> what \<open>calculateOrderTotal\<close> returns for that price
  and the flag of the design. The three fields are written after the helpers have run:
  with helpers that pass these fields through, the values the client sent for them make
  no difference to the created order.
\<close>

theorem createOrder_pricing:
  assumes "createOrder setOrderDefaults processOrderFiles calc findById user fs body = Inr created"
  shows "(\<exists>p. findById (product (setOrderDefaults body user)) = Inr (Some p) \<and>
              productPrice created = JNum (price p) \<and>
              (orderTotal created, logoSurcharge created) =
                calc (price p)
                  (opt_get (cardDesign (processOrderFiles fs (setOrderDefaults body user)))
                     ''includePrintedLogo'')) \<and>
         ((\<forall>b u x y z. setOrderDefaults (b\<lparr>productPrice := x, orderTotal := y, logoSurcharge := z\<rparr>) u =
                       (setOrderDefaults b u)\<lparr>productPrice := x, orderTotal := y, logoSurcharge := z\<rparr>) \<and>
          (\<forall>b x y z. processOrderFiles fs (b\<lparr>productPrice := x, orderTotal := y, logoSurcharge := z\<rparr>) =
                       (processOrderFiles fs b)\<lparr>productPrice := x, orderTotal := y, logoSurcharge := z\<rparr>) \<longrightarrow>
          (\<forall>x y z. createOrder setOrderDefaults processOrderFiles calc findById user fs
                     (body\<lparr>productPrice := x, orderTotal := y, logoSurcharge := z\<rparr>) = Inr created))"
proof (intro conjI impI allI)
  show "\<exists>p. findById (product (setOrderDefaults body user)) = Inr (Some p) \<and>
            productPrice created = JNum (price p) \<and>
            (orderTotal created, logoSurcharge created) =
              calc (price p)
                (opt_get (cardDesign (processOrderFiles fs (setOrderDefaults body user)))
                   ''includePrintedLogo'')"
    using assms
    by (auto simp: createOrder_def Let_def split: option.splits sum.splits prod.splits)
next
  fix x y z
  assume frame:
    "(\<forall>b u x y z. setOrderDefaults (b\<lparr>productPrice := x, orderTotal := y, logoSurcharge := z\<rparr>) u =
                   (setOrderDefaults b u)\<lparr>productPrice := x, orderTotal := y, logoSurcharge := z\<rparr>) \<and>
     (\<forall>b x y z. processOrderFiles fs (b\<lparr>productPrice := x, orderTotal := y, logoSurcharge := z\<rparr>) =
                 (processOrderFiles fs b)\<lparr>productPrice := x, orderTotal := y, logoSurcharge := z\<rparr>)"
  have "createOrder setOrderDefaults processOrderFiles calc findById user fs
          (body\<lparr>productPrice := x, orderTotal := y, logoSurcharge := z\<rparr>) =
        createOrder setOrderDefaults processOrderFiles calc findById user fs body"
    using frame
    by (simp add: createOrder_def validateRequiredFields_pricing Let_def
             split: option.splits sum.splits prod.splits)
  with assms show "createOrder setOrderDefaults processOrderFiles calc findById user fs
          (body\<lparr>productPrice := x, orderTotal := y, logoSurcharge := z\<rparr>) = Inr created"
    by simp
qed

text \<open>A product priced 20, a design without logo, and a client that sends 1, 2 and 3 as
  price, total and surcharge.\<close>

theorem createOrder_pricing_witness:
  "createOrder (\<lambda>b u. b\<lparr>status := Some ''pending''\<rparr>) (\<lambda>fs b. b)
     (\<lambda>p flag. (JNum (p + (if truthy flag then 5 else 0)), JNum (if truthy flag then 5 else 0)))
     (\<lambda>i. if i = Some ''p1''
           then Inr (Some \<lparr>title = ''NFC card'', description = ''A business card'', price = 20,
                            colors = [], images = [], isMainProduct = True,
                            createdBy = ''u1'', createdAt = 1700, updatedAt = 1700, isNew = False\<rparr>)
           else Inr None)
     ''u2'' None
     \<lparr>personalInfo = JObj [], cardDesign = JObj [], deliveryInfo = Some \<lparr>country = Some ''JO'', city = Some ''Amman''\<rparr>,
      product = Some ''p1'', productPrice = JNum 1, orderTotal = JNum 2, logoSurcharge = JNum 3,
      status = None, orderNotes = None\<rparr> =
   Inr \<lparr>personalInfo = JObj [], cardDesign = JObj [], deliveryInfo = Some \<lparr>country = Some ''JO'', city = Some ''Amman''\<rparr>,
        product = Some ''p1'', productPrice = JNum 20, orderTotal = JNum 20, logoSurcharge = JNum 0,
        status = Some ''pending'', orderNotes = None\<rparr>"
proof -
  let ?sd = "\<lambda>(b::order) (u::string). b\<lparr>status := Some ''pending''\<rparr>"
  let ?pf = "\<lambda>(fs::files option) (b::order). b"
  let ?calc = "\<lambda>(p::real) flag. (JNum (p + (if truthy flag then 5 else 0)), JNum (if truthy flag then 5 else 0))"
  let ?find = "\<lambda>i. if i = Some ''p1''
           then Inr (Some \<lparr>title = ''NFC card'', description = ''A business card'', price = 20,
                            colors = [], images = [], isMainProduct = True,
                            createdBy = ''u1'', createdAt = 1700, updatedAt = 1700, isNew = False\<rparr>)
           else (Inr None :: error + product option)"
  let ?body = "\<lparr>personalInfo = JObj [], cardDesign = JObj [],
      deliveryInfo = Some \<lparr>country = Some ''JO'', city = Some ''Amman''\<rparr>,
      product = Some ''p1'', productPrice = JNum 7, orderTotal = JNum 8, logoSurcharge = JNum 9,
      status = None, orderNotes = None\<rparr>"
  let ?created = "\<lparr>personalInfo = JObj [], cardDesign = JObj [],
        deliveryInfo = Some \<lparr>country = Some ''JO'', city = Some ''Amman''\<rparr>,
        product = Some ''p1'', productPrice = JNum 20, orderTotal = JNum 20, logoSurcharge = JNum 0,
        status = Some ''pending'', orderNotes = None\<rparr>"
  have run: "createOrder ?sd ?pf ?calc ?find ''u2'' None ?body = Inr ?created"
    by (simp add: createOrder_def validateRequiredFields_def validateCompanyLogo_def
          validateDeliveryInfo_def validateCountryCity_def or_else_def opt_get_def
          COUNTRY_CITY_MAP_def)
  have frame:
    "(\<forall>b u x y z. ?sd (b\<lparr>productPrice := x, orderTotal := y, logoSurcharge := z\<rparr>) u =
                   (?sd b u)\<lparr>productPrice := x, orderTotal := y, logoSurcharge := z\<rparr>) \<and>
     (\<forall>b x y z. ?pf None (b\<lparr>productPrice := x, orderTotal := y, logoSurcharge := z\<rparr>) =
                 (?pf None b)\<lparr>productPrice := x, orderTotal := y, logoSurcharge := z\<rparr>)"
    by simp
  from createOrder_pricing [OF run] frame
  have "createOrder ?sd ?pf ?calc ?find ''u2'' None
          (?body\<lparr>productPrice := JNum 1, orderTotal := JNum 2, logoSurcharge := JNum 3\<rparr>) = Inr ?created"
    by blast
  then show ?thesis
    by simp
qed

section \<open>The form parser\<close>

lemma array_index_letter:
  "\<not> (48 \<le> (of_char c :: nat) \<and> (of_char c :: nat) \<le> 57) \<Longrightarrow> array_index (c # cs) = None"
  by (auto simp: array_index_def)

lemma map_of_insert_index:
  assumes "map_of ps k = None"
  shows "map_of (insert_index i k v ps) k' = (if k' = k then Some v else map_of ps k')"
  using assms
  by (induction ps) (auto split: option.splits if_splits)

lemma map_of_set_prop:
  "map_of (set_prop k v ps) k' =
     (if k = ''__proto__'' \<and> map_of ps k = None then map_of ps k'
      else if k' = k then Some v else map_of ps k')"
proof (cases "map_of ps k")
  case None
  then show ?thesis
    by (auto simp: set_prop_def map_of_insert_index map_add_def split: option.splits)
next
  case (Some w)
  then show ?thesis
    by (auto simp: set_prop_def update_conv')
qed

lemma map_of_group_set:
  assumes "k' \<noteq> ''__proto__''"
  shows "map_of (fst (group_set k v g)) k' = (if k' = k then Some v else map_of (fst g) k')"
  using assms
  by (auto simp: group_set_def map_of_set_prop map_add_def split: option.splits)

lemma snd_group_set:
  "k \<noteq> ''__proto__'' \<Longrightarrow> snd (group_set k v g) = snd g"
  by (simp add: group_set_def)

lemma map_of_coerce_boolean:
  assumes "map_of (fst obj) name = Some v" and "v \<noteq> JUndefined" and "name \<noteq> ''__proto__''"
  shows "map_of (fst (coerce_boolean name obj)) name =
           Some (JBool (v = JStr ''true'' \<or> v = JBool True))"
  using assms by (simp add: coerce_boolean_def group_get_def map_of_group_set)

lemma map_of_normalize_color:
  assumes "normalize_color obj = Inr obj'" and "name \<noteq> ''color''" and "name \<noteq> ''__proto__''"
  shows "map_of (fst obj') name = map_of (fst obj) name"
  using assms
  by (auto simp: normalize_color_def Let_def map_of_group_set split: if_splits jsval.splits found.splits)

lemma parse_keys_append:
  "parse_keys (xs @ ys) pb =
     (case parse_keys xs pb of Inl e \<Rightarrow> Inl e | Inr pb' \<Rightarrow> parse_keys ys pb')"
proof (induction xs arbitrary: pb)
  case Nil
  then show ?case by simp
next
  case (Cons x xs)
  obtain key v where x: "x = (key, v)" by (cases x)
  show ?case
    unfolding x using Cons.IH
    by (simp add: Let_def split: sum.splits)
qed

lemma parse_keys_cardDesign_frame:
  assumes "parse_keys ys pb = Inr parsed"
    and "\<forall>k \<in> fst ` set ys. \<not> (startsWith k ''cardDesign['' \<and>
            str_replace (str_replace k ''cardDesign['' []) '']'' [] = name)"
    and "name \<noteq> ''__proto__''"
  shows "map_of (fst (pb_cardDesign parsed)) name = map_of (fst (pb_cardDesign pb)) name"
  using assms(1,2)
proof (induction ys arbitrary: pb)
  case Nil
  then show ?case by simp
next
  case (Cons y ys)
  obtain key v where y: "y = (key, v)" by (cases y)
  from Cons.prems(2) have rest: "\<forall>k \<in> fst ` set ys. \<not> (startsWith k ''cardDesign['' \<and>
            str_replace (str_replace k ''cardDesign['' []) '']'' [] = name)"
    by simp
  from Cons.prems(2) have here: "\<not> (startsWith key ''cardDesign['' \<and>
            str_replace (str_replace key ''cardDesign['' []) '']'' [] = name)"
    by (simp add: y)
  show ?case
  proof (cases "startsWith key ''personalInfo[''")
    case True
    with Cons.prems(1) obtain grp where
      "parse_keys ys (pb\<lparr>pb_personalInfo := grp\<rparr>) = Inr parsed"
      by (auto simp: y split: sum.splits)
    from Cons.IH [OF this rest] show ?thesis by simp
  next
    case notP: False
    show ?thesis
    proof (cases "startsWith key ''cardDesign[''")
      case True
      let ?nk = "str_replace (str_replace key ''cardDesign['' []) '']'' []"
      from True notP Cons.prems(1) have
        "parse_keys ys (pb\<lparr>pb_cardDesign := group_set ?nk v (pb_cardDesign pb)\<rparr>) = Inr parsed"
        by (simp add: y Let_def)
      from Cons.IH [OF this rest] here True assms(3) show ?thesis
        by (simp add: map_of_group_set)
    next
      case notC: False
      show ?thesis
      proof (cases "startsWith key ''deliveryInfo[''")
        case True
        let ?nk = "str_replace (str_replace key ''deliveryInfo['' []) '']'' []"
        from True notP notC Cons.prems(1) have
          "parse_keys ys (pb\<lparr>pb_deliveryInfo := group_set ?nk v (pb_deliveryInfo pb)\<rparr>) = Inr parsed"
          by (simp add: y Let_def)
        from Cons.IH [OF this rest] show ?thesis by simp
      next
        case False
        with notP notC Cons.prems(1) have "parse_keys ys pb = Inr parsed"
          by (simp add: y)
        from Cons.IH [OF this rest] show ?thesis by simp
      qed
    qed
  qed
qed

lemma parse_keys_deliveryInfo_frame:
  assumes "parse_keys ys pb = Inr parsed"
    and "\<forall>k \<in> fst ` set ys. \<not> (startsWith k ''deliveryInfo['' \<and>
            str_replace (str_replace k ''deliveryInfo['' []) '']'' [] = name)"
    and "name \<noteq> ''__proto__''"
  shows "map_of (fst (pb_deliveryInfo parsed)) name = map_of (fst (pb_deliveryInfo pb)) name"
  using assms(1,2)
proof (induction ys arbitrary: pb)
  case Nil
  then show ?case by simp
next
  case (Cons y ys)
  obtain key v where y: "y = (key, v)" by (cases y)
  from Cons.prems(2) have rest: "\<forall>k \<in> fst ` set ys. \<not> (startsWith k ''deliveryInfo['' \<and>
            str_replace (str_replace k ''deliveryInfo['' []) '']'' [] = name)"
    by simp
  from Cons.prems(2) have here: "\<not> (startsWith key ''deliveryInfo['' \<and>
            str_replace (str_replace key ''deliveryInfo['' []) '']'' [] = name)"
    by (simp add: y)
  show ?case
  proof (cases "startsWith key ''personalInfo[''")
    case True
    with Cons.prems(1) obtain grp where
      "parse_keys ys (pb\<lparr>pb_personalInfo := grp\<rparr>) = Inr parsed"
      by (auto simp: y split: sum.splits)
    from Cons.IH [OF this rest] show ?thesis by simp
  next
    case notP: False
    show ?thesis
    proof (cases "startsWith key ''cardDesign[''")
      case True
      let ?nk = "str_replace (str_replace key ''cardDesign['' []) '']'' []"
      from True notP Cons.prems(1) have
        "parse_keys ys (pb\<lparr>pb_cardDesign := group_set ?nk v (pb_cardDesign pb)\<rparr>) = Inr parsed"
        by (simp add: y Let_def)
      from Cons.IH [OF this rest] show ?thesis by simp
    next
      case notC: False
      show ?thesis
      proof (cases "startsWith key ''deliveryInfo[''")
        case True
        let ?nk = "str_replace (str_replace key ''deliveryInfo['' []) '']'' []"
        from True notP notC Cons.prems(1) have
          "parse_keys ys (pb\<lparr>pb_deliveryInfo := group_set ?nk v (pb_deliveryInfo pb)\<rparr>) = Inr parsed"
          by (simp add: y Let_def)
        from Cons.IH [OF this rest] here True assms(3) show ?thesis
          by (simp add: map_of_group_set)
      next
        case False
        with notP notC Cons.prems(1) have "parse_keys ys pb = Inr parsed"
          by (simp add: y)
        from Cons.IH [OF this rest] show ?thesis by simp
      qed
    qed
  qed
qed

lemma key_includePrintedLogo:
  "\<not> startsWith ''cardDesign[includePrintedLogo]'' ''personalInfo[''"
  "startsWith ''cardDesign[includePrintedLogo]'' ''cardDesign[''"
  "str_replace (str_replace ''cardDesign[includePrintedLogo]'' ''cardDesign['' []) '']'' [] =
     ''includePrintedLogo''"
  by (simp_all add: startsWith_def str_replace_def)

lemma key_useSameContact:
  "\<not> startsWith ''deliveryInfo[useSameContact]'' ''personalInfo[''"
  "\<not> startsWith ''deliveryInfo[useSameContact]'' ''cardDesign[''"
  "startsWith ''deliveryInfo[useSameContact]'' ''deliveryInfo[''"
  "str_replace (str_replace ''deliveryInfo[useSameContact]'' ''deliveryInfo['' []) '']'' [] =
     ''useSameContact''"
  by (simp_all add: startsWith_def str_replace_def)

lemma parse_keys_includePrintedLogo:
  assumes "parse_keys (pre @ (''cardDesign[includePrintedLogo]'', v) # post) pb = Inr parsed"
    and "\<forall>k \<in> fst ` set post. \<not> (startsWith k ''cardDesign['' \<and>
            str_replace (str_replace k ''cardDesign['' []) '']'' [] = ''includePrintedLogo'')"
  shows "map_of (fst (pb_cardDesign parsed)) ''includePrintedLogo'' = Some v"
proof -
  from assms(1) obtain pb1 where
    rest: "parse_keys ((''cardDesign[includePrintedLogo]'', v) # post) pb1 = Inr parsed"
    by (auto simp: parse_keys_append split: sum.splits)
  then have "parse_keys post
      (pb1\<lparr>pb_cardDesign := group_set ''includePrintedLogo'' v (pb_cardDesign pb1)\<rparr>) = Inr parsed"
    by (simp add: key_includePrintedLogo)
  from parse_keys_cardDesign_frame [OF this assms(2)] show ?thesis
    by (simp add: map_of_group_set)
qed

lemma parse_keys_useSameContact:
  assumes "parse_keys (pre @ (''deliveryInfo[useSameContact]'', v) # post) pb = Inr parsed"
    and "\<forall>k \<in> fst ` set post. \<not> (startsWith k ''deliveryInfo['' \<and>
            str_replace (str_replace k ''deliveryInfo['' []) '']'' [] = ''useSameContact'')"
  shows "map_of (fst (pb_deliveryInfo parsed)) ''useSameContact'' = Some v"
proof -
  from assms(1) obtain pb1 where
    rest: "parse_keys ((''deliveryInfo[useSameContact]'', v) # post) pb1 = Inr parsed"
    by (auto simp: parse_keys_append split: sum.splits)
  then have "parse_keys post
      (pb1\<lparr>pb_deliveryInfo := group_set ''useSameContact'' v (pb_deliveryInfo pb1)\<rparr>) = Inr parsed"
    by (simp add: key_useSameContact)
  from parse_keys_deliveryInfo_frame [OF this assms(2)] show ?thesis
    by (simp add: map_of_group_set)
qed

lemma parseFormData_cardDesign:
  assumes "parseFormData body = Inr body'"
    and "parse_keys body empty_parsedBody = Inr parsed"
    and "map_of (fst (pb_cardDesign parsed)) ''includePrintedLogo'' = Some v" and "v \<noteq> JUndefined"
  shows "\<exists>design. map_of body' ''cardDesign'' = Some (JObj design) \<and>
           map_of design ''includePrintedLogo'' = Some (JBool (v = JStr ''true'' \<or> v = JBool True))"
proof -
  from assms(3) have ne: "fst (pb_cardDesign parsed) \<noteq> []"
    by auto
  from assms(1,2) ne obtain design where
    col: "normalize_color (coerce_boolean ''includePrintedLogo'' (pb_cardDesign parsed)) = Inr design"
    and out: "map_of body' ''cardDesign'' = Some (JObj (fst design))"
    by (auto simp: parseFormData_def Let_def map_of_set_prop split: sum.splits if_splits)
  have "map_of (fst design) ''includePrintedLogo'' =
          map_of (fst (coerce_boolean ''includePrintedLogo'' (pb_cardDesign parsed))) ''includePrintedLogo''"
    by (rule map_of_normalize_color [OF col]) simp_all
  also have "\<dots> = Some (JBool (v = JStr ''true'' \<or> v = JBool True))"
    by (rule map_of_coerce_boolean [OF assms(3,4)]) simp
  finally show ?thesis
    using out by blast
qed

lemma parseFormData_deliveryInfo:
  assumes "parseFormData body = Inr body'"
    and "parse_keys body empty_parsedBody = Inr parsed"
    and "map_of (fst (pb_deliveryInfo parsed)) ''useSameContact'' = Some v" and "v \<noteq> JUndefined"
  shows "\<exists>delivery. map_of body' ''deliveryInfo'' = Some (JObj delivery) \<and>
           map_of delivery ''useSameContact'' = Some (JBool (v = JStr ''true'' \<or> v = JBool True))"
proof -
  from assms(3) have ne: "fst (pb_deliveryInfo parsed) \<noteq> []"
    by auto
  from assms(1,2) ne have
    out: "map_of body' ''deliveryInfo'' =
            Some (JObj (fst (coerce_boolean ''useSameContact'' (pb_deliveryInfo parsed))))"
    by (auto simp: parseFormData_def Let_def map_of_set_prop split: sum.splits if_splits)
  have "map_of (fst (coerce_boolean ''useSameContact'' (pb_deliveryInfo parsed))) ''useSameContact'' =
          Some (JBool (v = JStr ''true'' \<or> v = JBool True))"
    by (rule map_of_coerce_boolean [OF assms(3,4)]) simp
  with out show ?thesis
    by blast
qed

text \<open>
  Claim C6, as stated, fails: the value \<open>yes\<close> under \<open>cardDesign[includePrintedLogo]\<close> is
  not left as it is, it becomes the boolean false.
\<close>

theorem parseFormData_other_value_counterexample:
  "parseFormData [(''cardDesign[includePrintedLogo]'', JStr ''yes'')] =
     Inr [(''cardDesign[includePrintedLogo]'', JStr ''yes''),
          (''cardDesign'', JObj [(''includePrintedLogo'', JBool False)])]"
  by (simp add: parseFormData_def empty_parsedBody_def startsWith_def str_replace_def group_set_def
        group_get_def set_prop_def array_index_letter coerce_boolean_def normalize_color_def
        OBJECT_PROTOTYPE_KEYS_def)

text \<open>
  Claim C6, amended. Whenever \<open>parseFormData\<close> returns: a value \<open>v\<close> that the body gives
  under the key \<open>cardDesign[includePrintedLogo]\<close>, when it is not undefined and no later
  key of the body is parsed to the same field (a key that starts with \<open>cardDesign[\<close> and
  is \<open>includePrintedLogo\<close> once that prefix and the first \<open>]\<close> are taken out), is replaced
  in \<open>cardDesign.includePrintedLogo\<close> by the boolean \<open>v === 'true' || v === true\<close>: true
  for the string \<open>true\<close> and for the boolean true, false for the string \<open>false\<close> and for
  every other value. The same holds for the key \<open>deliveryInfo[useSameContact]\<close> and the
  field \<open>deliveryInfo.useSameContact\<close>.
\<close>

theorem parseFormData_booleans:
  assumes "parseFormData body = Inr body'"
  shows "(\<forall>pre v post.
            body = pre @ (''cardDesign[includePrintedLogo]'', v) # post \<and> v \<noteq> JUndefined \<and>
            (\<forall>k \<in> fst ` set post. \<not> (startsWith k ''cardDesign['' \<and>
               str_replace (str_replace k ''cardDesign['' []) '']'' [] = ''includePrintedLogo'')) \<longrightarrow>
            (\<exists>design. map_of body' ''cardDesign'' = Some (JObj design) \<and>
               map_of design ''includePrintedLogo'' = Some (JBool (v = JStr ''true'' \<or> v = JBool True)))) \<and>
         (\<forall>pre v post.
            body = pre @ (''deliveryInfo[useSameContact]'', v) # post \<and> v \<noteq> JUndefined \<and>
            (\<forall>k \<in> fst ` set post. \<not> (startsWith k ''deliveryInfo['' \<and>
               str_replace (str_replace k ''deliveryInfo['' []) '']'' [] = ''useSameContact'')) \<longrightarrow>
            (\<exists>delivery. map_of body' ''deliveryInfo'' = Some (JObj delivery) \<and>
               map_of delivery ''useSameContact'' = Some (JBool (v = JStr ''true'' \<or> v = JBool True))))"
proof -
  from assms obtain parsed where
    pk: "parse_keys body empty_parsedBody = Inr parsed"
    by (auto simp: parseFormData_def split: sum.splits)
  show ?thesis
  proof (intro conjI allI impI)
    fix pre v post
    assume h: "body = pre @ (''cardDesign[includePrintedLogo]'', v) # post \<and> v \<noteq> JUndefined \<and>
            (\<forall>k \<in> fst ` set post. \<not> (startsWith k ''cardDesign['' \<and>
               str_replace (str_replace k ''cardDesign['' []) '']'' [] = ''includePrintedLogo''))"
    with pk have "map_of (fst (pb_cardDesign parsed)) ''includePrintedLogo'' = Some v"
      using parse_keys_includePrintedLogo by blast
    with assms pk h show "\<exists>design. map_of body' ''cardDesign'' = Some (JObj design) \<and>
               map_of design ''includePrintedLogo'' = Some (JBool (v = JStr ''true'' \<or> v = JBool True))"
      using parseFormData_cardDesign by blast
  next
    fix pre v post
    assume h: "body = pre @ (''deliveryInfo[useSameContact]'', v) # post \<and> v \<noteq> JUndefined \<and>
            (\<forall>k \<in> fst ` set post. \<not> (startsWith k ''deliveryInfo['' \<and>
               str_replace (str_replace k ''deliveryInfo['' []) '']'' [] = ''useSameContact''))"
    with pk have "map_of (fst (pb_deliveryInfo parsed)) ''useSameContact'' = Some v"
      using parse_keys_useSameContact by blast
    with assms pk h show "\<exists>delivery. map_of body' ''deliveryInfo'' = Some (JObj delivery) \<and>
               map_of delivery ''useSameContact'' = Some (JBool (v = JStr ''true'' \<or> v = JBool True))"
      using parseFormData_deliveryInfo by blast
  qed
qed

text \<open>The string \<open>false\<close> under the first key and the number 1 under the second both
  become false.\<close>

theorem parseFormData_booleans_witness:
  "parseFormData [(''cardDesign[includePrintedLogo]'', JStr ''false''),
                  (''deliveryInfo[useSameContact]'', JNum 1)] =
     Inr [(''cardDesign[includePrintedLogo]'', JStr ''false''),
          (''deliveryInfo[useSameContact]'', JNum 1),
          (''cardDesign'', JObj [(''includePrintedLogo'', JBool False)]),
          (''deliveryInfo'', JObj [(''useSameContact'', JBool False)])]"
proof -
  let ?body = "[(''cardDesign[includePrintedLogo]'', JStr ''false''),
                (''deliveryInfo[useSameContact]'', JNum 1)]"
  obtain body' where run: "parseFormData ?body = Inr body'"
    by (simp add: parseFormData_def empty_parsedBody_def startsWith_def str_replace_def group_set_def
          group_get_def set_prop_def array_index_letter coerce_boolean_def normalize_color_def
          OBJECT_PROTOTYPE_KEYS_def)
  have c: "?body = [] @ (''cardDesign[includePrintedLogo]'', JStr ''false'') #
                     [(''deliveryInfo[useSameContact]'', JNum 1)] \<and> JStr ''false'' \<noteq> JUndefined \<and>
           (\<forall>k \<in> fst ` set [(''deliveryInfo[useSameContact]'', JNum 1)].
              \<not> (startsWith k ''cardDesign['' \<and>
                 str_replace (str_replace k ''cardDesign['' []) '']'' [] = ''includePrintedLogo''))"
    by (simp add: startsWith_def)
  have d: "?body = [(''cardDesign[includePrintedLogo]'', JStr ''false'')] @
                     (''deliveryInfo[useSameContact]'', JNum 1) # [] \<and> JNum 1 \<noteq> JUndefined \<and>
           (\<forall>k \<in> fst ` set []. \<not> (startsWith k ''deliveryInfo['' \<and>
                 str_replace (str_replace k ''deliveryInfo['' []) '']'' [] = ''useSameContact''))"
    by simp
  note coerced = parseFormData_booleans [OF run]
  from coerced [THEN conjunct1, rule_format, OF c]
  have design: "\<exists>design. map_of body' ''cardDesign'' = Some (JObj design) \<and>
           map_of design ''includePrintedLogo'' = Some (JBool False)"
    by simp
  from coerced [THEN conjunct2, rule_format, OF d]
  have delivery: "\<exists>delivery. map_of body' ''deliveryInfo'' = Some (JObj delivery) \<and>
           map_of delivery ''useSameContact'' = Some (JBool False)"
    by simp
  from design delivery
  have "(\<exists>design. map_of body' ''cardDesign'' = Some (JObj design) \<and>
           map_of design ''includePrintedLogo'' = Some (JBool False)) \<and>
        (\<exists>delivery. map_of body' ''deliveryInfo'' = Some (JObj delivery) \<and>
           map_of delivery ''useSameContact'' = Some (JBool False))"
    by (rule conjI)
  then show ?thesis
    by (simp add: parseFormData_def empty_parsedBody_def startsWith_def str_replace_def group_set_def
          group_get_def set_prop_def array_index_letter coerce_boolean_def normalize_color_def
          OBJECT_PROTOTYPE_KEYS_def)
qed

text \<open>The loop over the keys always returns. The middleware throws in one case only: the
  card design group has a property of its own, and the color read from it, its own or
  an inherited one, holds as a condition and is not a string.\<close>

lemma str_split_not_Nil: "str_split s c \<noteq> []"
  by (induction s) (auto split: list.splits)

lemma str_includes_char: "str_includes s [c] \<longleftrightarrow> c \<in> set s"
  by (induction s) (auto simp: str_includes_def startsWith_def)

lemma str_split_two:
  assumes "c \<in> set s"
  shows "\<exists>a b rest. str_split s c = a # b # rest"
  using assms
proof (induction s)
  case Nil
  then show ?case by simp
next
  case (Cons x xs)
  show ?case
  proof (cases "x = c")
    case True
    then show ?thesis
      using str_split_not_Nil [of xs c] by (cases "str_split xs c") auto
  next
    case False
    with Cons.prems have "c \<in> set xs" by simp
    from Cons.IH [OF this] False show ?thesis
      by auto
  qed
qed

lemma personalInfo_entry_returns: "\<exists>g. personalInfo_entry grp key v = Inr g"
proof -
  let ?nk = "str_replace (str_replace key ''personalInfo['' []) '']'' []"
  show ?thesis
  proof (cases "str_includes ?nk ''['' \<and> str_includes ?nk '']''")
    case True
    then have "CHR ''['' \<in> set ?nk"
      by (simp add: str_includes_char)
    from str_split_two [OF this] obtain a b rest where
      "str_split ?nk CHR ''['' = a # b # rest" by blast
    with True show ?thesis
      by (simp add: personalInfo_entry_def Let_def split: option.splits found.splits)
  next
    case False
    then show ?thesis
      by (auto simp: personalInfo_entry_def Let_def)
  qed
qed

lemma parse_keys_returns: "\<exists>parsed. parse_keys body pb = Inr parsed"
proof (induction body arbitrary: pb)
  case Nil
  then show ?case by simp
next
  case (Cons x xs)
  obtain key v where x: "x = (key, v)" by (cases x)
  obtain g where g: "personalInfo_entry (pb_personalInfo pb) key v = Inr g"
    using personalInfo_entry_returns by blast
  show ?case
    unfolding x using Cons.IH g
    by (simp add: Let_def)
qed

lemma group_get_group_set:
  "k' \<noteq> k \<Longrightarrow> k \<noteq> ''__proto__'' \<Longrightarrow> group_get (group_set k v g) k' = group_get g k'"
  by (auto simp: group_get_def group_set_def map_of_set_prop split: option.splits)

lemma group_get_coerce_boolean:
  "name' \<noteq> name \<Longrightarrow> name \<noteq> ''__proto__'' \<Longrightarrow>
   group_get (coerce_boolean name obj) name' = group_get obj name'"
  by (simp add: coerce_boolean_def group_get_group_set split: found.splits)

lemma normalize_color_throws:
  "normalize_color obj = Inl e \<longleftrightarrow>
     e = TypeError \<and>
     (group_get obj ''color'' = Builtin \<or>
      (\<exists>c. group_get obj ''color'' = Found c \<and> truthy c \<and> (\<forall>s. c \<noteq> JStr s)))"
  by (auto simp: normalize_color_def Let_def split: jsval.splits found.splits)

lemma normalize_color_coerced_throws:
  "normalize_color (coerce_boolean ''includePrintedLogo'' obj) = Inl e \<longleftrightarrow>
     e = TypeError \<and>
     (group_get obj ''color'' = Builtin \<or>
      (\<exists>c. group_get obj ''color'' = Found c \<and> truthy c \<and> (\<forall>s. c \<noteq> JStr s)))"
proof -
  have "group_get (coerce_boolean ''includePrintedLogo'' obj) ''color'' = group_get obj ''color''"
    by (rule group_get_coerce_boolean) simp_all
  then show ?thesis
    unfolding normalize_color_throws by simp
qed

lemma parseFormData_throws_iff:
  "parseFormData body = Inl e \<longleftrightarrow>
     e = TypeError \<and>
     (\<exists>parsed. parse_keys body empty_parsedBody = Inr parsed \<and>
               fst (pb_cardDesign parsed) \<noteq> [] \<and>
               (group_get (pb_cardDesign parsed) ''color'' = Builtin \<or>
                (\<exists>c. group_get (pb_cardDesign parsed) ''color'' = Found c \<and> truthy c \<and>
                     (\<forall>s. c \<noteq> JStr s))))"
proof -
  obtain parsed where
    pk: "parse_keys body empty_parsedBody = Inr parsed"
    using parse_keys_returns by blast
  let ?design = "pb_cardDesign parsed"
  have "parseFormData body = Inl e \<longleftrightarrow>
          fst ?design \<noteq> [] \<and> normalize_color (coerce_boolean ''includePrintedLogo'' ?design) = Inl e"
    by (auto simp: parseFormData_def pk Let_def split: sum.splits)
  then show ?thesis
    unfolding normalize_color_coerced_throws by (auto simp: pk)
qed

text \<open>A color that the group inherits from a prototype given under \<open>__proto__\<close> is read
  like one of its own.\<close>

lemma parseFormData_inherited_color:
  "parseFormData [(''cardDesign[__proto__]'', JObj [(''color'', JNum 5)]),
                  (''cardDesign[x]'', JStr ''y'')] = Inl TypeError"
  by (simp add: parseFormData_def empty_parsedBody_def startsWith_def str_replace_def group_set_def
        group_get_def set_prop_def set_prototype_def array_index_letter coerce_boolean_def
        normalize_color_def OBJECT_PROTOTYPE_KEYS_def)

text \<open>
  Claim C7 fails on the code: a body whose value under \<open>cardDesign[color]\<close> is the number
  5 passes the condition on the color, and the call of \<open>toLowerCase\<close> on it throws.
\<close>

theorem parseFormData_throws:
  "parseFormData [(''cardDesign[color]'', JNum 5)] = Inl TypeError"
  by (simp add: parseFormData_def empty_parsedBody_def startsWith_def str_replace_def group_set_def
        group_get_def set_prop_def array_index_letter coerce_boolean_def normalize_color_def
        OBJECT_PROTOTYPE_KEYS_def)

section \<open>Updating an order\<close>

text \<open>Whatever \<open>buildOrderUpdateObject\<close> and \<open>processOrderFiles\<close> do: with an uploaded
  \<open>companyLogo\<close>, the update set holds the \<open>path\<close> of the file as multer reports it, and
  an update set that reaches the database is never empty.\<close>

lemma updateOrder_logo_path:
  assumes "updateOrder build pf findById oid (Some fs) body = Inr updateData"
    and "map_of fs ''companyLogo'' = Some (f # rest)"
  shows "map_of updateData ''cardDesign.companyLogo'' = Some (JStr (path f))"
  using assms
  by (auto simp: updateOrder_def Let_def map_of_set_prop split: option.splits sum.splits if_splits)

lemma updateOrder_not_empty:
  assumes "updateOrder build pf findById oid fs body = Inr updateData"
  shows "updateData \<noteq> []"
  using assms
  by (auto simp: updateOrder_def Let_def split: option.splits sum.splits list.splits if_splits)

text \<open>
  Claim C5 fails on the code: for an upload stored under the public root, the update
  set holds the full path of the file, where \<open>getRelativeFilePath\<close> gives the path
  relative to the public root.
\<close>

theorem updateOrder_stores_upload_path:
  "updateOrder (\<lambda>b. []) (\<lambda>fs b. b)
     (\<lambda>i. if i = ''o1''
           then Some \<lparr>personalInfo = JObj [], cardDesign = JObj [], deliveryInfo = None,
                      product = Some ''p1'', productPrice = JNum 20, orderTotal = JNum 20,
                      logoSurcharge = JNum 0, status = Some ''pending'', orderNotes = None\<rparr>
           else None)
     ''o1''
     (Some [(''companyLogo'',
             [\<lparr>fieldname = ''companyLogo'', path = ''/srv/app/public/uploads/companyLogo/logo-1.png'',
               filename = ''logo-1.png''\<rparr>])])
     \<lparr>personalInfo = JUndefined, cardDesign = JUndefined, deliveryInfo = None, product = None,
      productPrice = JUndefined, orderTotal = JUndefined, logoSurcharge = JUndefined,
      status = None, orderNotes = None\<rparr> =
   Inr [(''cardDesign.companyLogo'', JStr ''/srv/app/public/uploads/companyLogo/logo-1.png'')] \<and>
   getRelativeFilePath
     (Some \<lparr>fieldname = ''companyLogo'', path = ''/srv/app/public/uploads/companyLogo/logo-1.png'',
            filename = ''logo-1.png''\<rparr>) = Some ''/uploads/companyLogo/logo-1.png''"
  by (simp add: updateOrder_def validateCompanyLogo_def validateDeliveryInfo_def set_prop_def
        array_index_letter getRelativeFilePath_def startsWith_def)

end
